theory Spec2Isabelle
  imports Complex_Main "HOL-Library.List_Lexorder" "HOL-Library.Char_ord" "HOL-Library.Multiset"
begin

section \<open>RP-WHY baseline analysis (rp\_why\_baseline.py)\<close>

text \<open>
  A shallow embedding of class \<open>RPWhyBaseline\<close> and of the \<open>init\<close> command of
  \<open>main\<close>.

  Conventions of the model:
  \<^item> Python \<open>str\<close> is \<open>string\<close>; the text functions (\<open>lower\<close>, the word class of the
    regular expressions, \<open>strip\<close>) are modelled on ASCII: a character outside ASCII is
    left unchanged by \<open>lower\<close> and counts as a non-word character.
  \<^item> Python \<open>float\<close> is \<open>rat\<close>: every quotient, mean and comparison is computed
    exactly; \<open>round(x, n)\<close> rounds the exact value to the nearest multiple of
    \<open>10^-n\<close>, a tie going to the even multiple.
  \<^item> \<open>None\<close> is \<open>None\<close> of an option type; an uncaught exception is \<open>Inl\<close> of a sum.
  \<^item> The libraries the program calls are parameters: the \<open>datetime\<close> functions
    (record \<open>datetime_lib\<close>), the JSON encoder and decoder (\<open>dumps\<close>, \<open>loads\<close>), the
    clock (\<open>now\<close>). The rows that the SQL queries return are the fields of \<open>store\<close>.
\<close>

subsection \<open>Regular expressions: the fragment used by \<open>DOK_PATTERNS\<close>\<close>

text \<open>
  Every pattern of the table is a sequence of \<open>\b\<close> (word boundary), literal characters
  and one optional character (\<open>-?\<close>). \<open>re.search\<close> tries the start positions from left
  to right; an optional character is tried present first (greedy), then absent.
\<close>

datatype re_item = WB | Ch char | Opt char

type_synonym pattern = "re_item list"

definition is_word_char :: "char \<Rightarrow> bool" where
  "is_word_char c \<longleftrightarrow>
     c \<in> set ''abcdefghijklmnopqrstuvwxyzABCDEFGHIJKLMNOPQRSTUVWXYZ0123456789_''"

definition is_boundary :: "char option \<Rightarrow> string \<Rightarrow> bool" where
  "is_boundary prev rest \<longleftrightarrow>
     (case prev of None \<Rightarrow> False | Some c \<Rightarrow> is_word_char c)
       \<noteq> (case rest of [] \<Rightarrow> False | c # _ \<Rightarrow> is_word_char c)"

fun match_here :: "pattern \<Rightarrow> char option \<Rightarrow> string \<Rightarrow> string option" where
  "match_here [] prev s = Some []"
| "match_here (WB # p) prev s = (if is_boundary prev s then match_here p prev s else None)"
| "match_here (Ch c # p) prev [] = None"
| "match_here (Ch c # p) prev (x # xs) =
     (if x = c then map_option ((#) x) (match_here p (Some x) xs) else None)"
| "match_here (Opt c # p) prev [] = match_here p prev []"
| "match_here (Opt c # p) prev (x # xs) =
     (case (if x = c then map_option ((#) x) (match_here p (Some x) xs) else None) of
        Some m \<Rightarrow> Some m
      | None \<Rightarrow> match_here p prev (x # xs))"

fun search_from :: "pattern \<Rightarrow> char option \<Rightarrow> string \<Rightarrow> string option" where
  "search_from p prev [] = match_here p prev []"
| "search_from p prev (x # xs) =
     (case match_here p prev (x # xs) of
        Some m \<Rightarrow> Some m
      | None \<Rightarrow> search_from p (Some x) xs)"

text \<open>\<open>re.search(pattern, s)\<close>: \<open>None\<close>, or the text of the leftmost match (\<open>match.group()\<close>).\<close>

definition re_search :: "pattern \<Rightarrow> string \<Rightarrow> string option" where
  "re_search p s = search_from p None s"

text \<open>\<open>r'\bw\b'\<close> for a literal \<open>w\<close>.\<close>

definition word :: "string \<Rightarrow> pattern" where
  "word w = WB # map Ch w @ [WB]"

subsection \<open>String functions\<close>

definition lower_char :: "char \<Rightarrow> char" where
  "lower_char c =
     (case map_of (zip ''ABCDEFGHIJKLMNOPQRSTUVWXYZ'' ''abcdefghijklmnopqrstuvwxyz'') c of
        Some l \<Rightarrow> l
      | None \<Rightarrow> c)"

definition lower :: "string \<Rightarrow> string" where
  "lower s = map lower_char s"

definition is_space :: "char \<Rightarrow> bool" where
  "is_space c \<longleftrightarrow>
     c \<in> set [CHR '' '', CHR 0x09, CHR 0x0A, CHR 0x0B, CHR 0x0C, CHR 0x0D,
               CHR 0x1C, CHR 0x1D, CHR 0x1E, CHR 0x1F]"

definition strip :: "string \<Rightarrow> string" where
  "strip s = rev (dropWhile is_space (rev (dropWhile is_space s)))"

text \<open>\<open>s.replace('Z', '+00:00')\<close>.\<close>

definition replace_Z :: "string \<Rightarrow> string" where
  "replace_Z s = concat (map (\<lambda>c. if c = CHR ''Z'' then ''+00:00'' else [c]) s)"

subsection \<open>The tier classifier\<close>

definition DOK_PATTERNS :: "(nat \<times> pattern list) list" where
  "DOK_PATTERNS =
    [(1, [word ''how do i'', word ''what is'', word ''syntax'', word ''command'',
          word ''where'', word ''show me'', word ''example'', word ''help with'',
          word ''what's the'', word ''how to'', word ''can you show'']),
     (2, [word ''implement'', word ''debug'', word ''fix'', word ''refactor'',
          word ''test'', word ''add'', word ''update'', word ''create'',
          word ''build'', word ''write'', word ''modify'', word ''change'',
          word ''remove'', word ''delete'', word ''install'', word ''setup'']),
     (3, [word ''design'', word ''architect'', word ''analyze'', word ''compare'',
          WB # map Ch ''trade'' @ [Opt (CHR ''-'')] @ map Ch ''off'' @ [WB],
          word ''best approach'', word ''evaluate'',
          word ''strategy'', word ''why'', word ''implications'', word ''should we'',
          word ''review'', word ''optimize'', word ''improve'', word ''alternative'',
          word ''pros and cons'', word ''decision'']),
     (4, [word ''research'', word ''novel'', word ''innovate'', word ''transform'',
          word ''framework'', word ''long-term'', word ''evolve'', word ''vision'',
          word ''breakthrough'', word ''systematic'', word ''paradigm'',
          word ''fundamental'', word ''pioneer'', word ''groundbreaking''])]"

text \<open>
  The two nested loops of \<open>classify_dok\<close>: \<open>level_scores\<close> is the dictionary \<open>scores\<close>
  after the loops (one entry per tier, in the order of the table, each pattern that
  matches adding 1), \<open>level_matched\<close> the list \<open>matched\<close>.
\<close>

definition level_scores :: "string \<Rightarrow> (nat \<times> nat) list" where
  "level_scores text_lower =
     map (\<lambda>(level, patterns).
            (level, length (filter (\<lambda>p. re_search p text_lower \<noteq> None) patterns)))
         DOK_PATTERNS"

definition level_matched :: "string \<Rightarrow> string list" where
  "level_matched text_lower =
     concat (map (\<lambda>(level, patterns).
                    List.map_filter (\<lambda>p. map_option strip (re_search p text_lower)) patterns)
                 DOK_PATTERNS)"

definition classify_dok :: "string option \<Rightarrow> nat \<times> rat \<times> string list" where
  "classify_dok text =
     (case text of
        None \<Rightarrow> (2, 3 / 10, [])
      | Some t \<Rightarrow>
          if t = [] then (2, 3 / 10, [])
          else
            let text_lower = lower t;
                scores = level_scores text_lower;
                matched = level_matched text_lower;
                total_matches = sum_list (map snd scores)
            in if total_matches = 0 then (2, 3 / 10, [])
               else
                 let max_score = Max (set (map snd scores));
                     level = Max (set (map fst (filter (\<lambda>(k, v). v = max_score) scores)));
                     confidence = (if total_matches > 0
                                   then of_nat max_score / of_nat total_matches else 3 / 10)
                 in (level, min confidence 1, take 5 matched))"

subsection \<open>Numbers and dictionaries\<close>

text \<open>\<open>round(x, n)\<close>: to the nearest multiple of \<open>10^-n\<close>, a tie to the even one.\<close>

definition round_half_even :: "rat \<Rightarrow> int" where
  "round_half_even q =
     (let f = \<lfloor>q\<rfloor>; d = q - of_int f
      in if d < 1 / 2 then f
         else if d > 1 / 2 then f + 1
         else if even f then f else f + 1)"

definition py_round :: "rat \<Rightarrow> nat \<Rightarrow> rat" where
  "py_round x n = of_int (round_half_even (x * 10 ^ n)) / 10 ^ n"

text \<open>\<open>str(n)\<close> for a non-negative integer, as an f-string prints it.\<close>

definition digit_char :: "nat \<Rightarrow> char" where
  "digit_char n = ''0123456789'' ! (n mod 10)"

function str_nat :: "nat \<Rightarrow> string" where
  "str_nat n = (if n < 10 then [digit_char n] else str_nat (n div 10) @ [digit_char n])"
  by pat_completeness auto
termination
  by (relation "measure id") auto

declare str_nat.simps [simp del]

text \<open>
  A dictionary keeps its keys in the order of their first insertion: an association list
  with distinct keys. \<open>dict_set\<close> is \<open>d[k] = v\<close>, \<open>dict_append\<close> is \<open>d[k].append(x)\<close> on a
  \<open>defaultdict(list)\<close>, \<open>dict_get_list\<close> is \<open>d[k]\<close> on a \<open>defaultdict(list)\<close>, and
  \<open>dict_incr\<close> is \<open>d[k] += 1\<close> (on a missing key Python raises \<open>KeyError\<close>; the program
  only increments the keys 1 to 4 that the dictionary is created with, see
  \<open>classify_dok_level\<close>).
\<close>

fun dict_set :: "'k \<Rightarrow> 'v \<Rightarrow> ('k \<times> 'v) list \<Rightarrow> ('k \<times> 'v) list" where
  "dict_set k v [] = [(k, v)]"
| "dict_set k v ((k', v') # d) = (if k' = k then (k, v) # d else (k', v') # dict_set k v d)"

fun dict_append :: "'k \<Rightarrow> 'v \<Rightarrow> ('k \<times> 'v list) list \<Rightarrow> ('k \<times> 'v list) list" where
  "dict_append k x [] = [(k, [x])]"
| "dict_append k x ((k', xs) # d) =
     (if k' = k then (k', xs @ [x]) # d else (k', xs) # dict_append k x d)"

definition dict_get_list :: "('k \<times> 'v list) list \<Rightarrow> 'k \<Rightarrow> 'v list" where
  "dict_get_list d k = (case map_of d k of None \<Rightarrow> [] | Some xs \<Rightarrow> xs)"

fun dict_incr :: "'k \<Rightarrow> ('k \<times> nat) list \<Rightarrow> ('k \<times> nat) list" where
  "dict_incr k [] = []"
| "dict_incr k ((k', v) # d) = (if k' = k then (k', v + 1) # d else (k', v) # dict_incr k d)"

subsection \<open>Prompt records and the weekly rollup\<close>

record prompt =
  session_id :: string
  session_name :: "string option"
  session_date :: "string option"
  working_dir :: string
  prompt_text :: string
  timestamp :: int

record weekly_rollup =
  week :: string
  avg_dok :: rat
  prompt_count :: nat

text \<open>
  The \<open>datetime\<close> library: \<open>fromisoformat\<close> is \<open>None\<close> where \<open>datetime.fromisoformat\<close>
  raises \<open>ValueError\<close>; \<open>strftime_week d\<close> is \<open>d.strftime('%Y-W%W')\<close>; \<open>days_between a b\<close>
  is \<open>(a - b).days\<close>, \<open>None\<close> where the subtraction raises \<open>TypeError\<close>.
\<close>

record 'd datetime_lib =
  fromisoformat :: "string \<Rightarrow> 'd option"
  strftime_week :: "'d \<Rightarrow> string"
  days_between :: "'d \<Rightarrow> 'd \<Rightarrow> int option"

text \<open>
  One round of the first loop of \<open>get_weekly_breakdown\<close>: a prompt whose session date is
  \<open>None\<close> or empty, or does not parse, leaves \<open>weekly\<close> as it is.
\<close>

definition weekly_step ::
  "'d datetime_lib \<Rightarrow> prompt \<Rightarrow> (string \<times> nat list) list \<Rightarrow> (string \<times> nat list) list" where
  "weekly_step lib p weekly =
     (case session_date p of
        None \<Rightarrow> weekly
      | Some sd \<Rightarrow>
          if sd = [] then weekly
          else (case fromisoformat lib (replace_Z sd) of
                  None \<Rightarrow> weekly
                | Some date \<Rightarrow>
                    dict_append (strftime_week lib date)
                      (fst (classify_dok (Some (prompt_text p)))) weekly))"

definition weekly_groups :: "'d datetime_lib \<Rightarrow> prompt list \<Rightarrow> (string \<times> nat list) list" where
  "weekly_groups lib prompts = fold (weekly_step lib) prompts []"

definition get_weekly_breakdown :: "'d datetime_lib \<Rightarrow> prompt list \<Rightarrow> weekly_rollup list" where
  "get_weekly_breakdown lib prompts =
     (let weekly = weekly_groups lib prompts
      in map (\<lambda>w. let scores = dict_get_list weekly w;
                       avg = (if scores \<noteq> []
                              then of_nat (sum_list scores) / of_nat (length scores) else 0)
                   in \<lparr>week = w, avg_dok = py_round avg 2, prompt_count = length scores\<rparr>)
             (sort (map fst weekly)))"

subsection \<open>The stage estimator\<close>

definition STAGE_THRESHOLDS :: "(rat \<times> int \<times> int) list" where
  "STAGE_THRESHOLDS =
     [(35 / 10, 5, 7),
      (32 / 10, 4, 6),
      (28 / 10, 3, 6),
      (25 / 10, 2, 5),
      (20 / 10, 1, 5),
      (0, 0, 5)]"

fun first_rule :: "(rat \<times> int \<times> int) list \<Rightarrow> rat \<Rightarrow> int \<Rightarrow> int" where
  "first_rule [] avg domains = 5"
| "first_rule ((dok_threshold, domain_threshold, stage) # rules) avg domains =
     (if avg \<ge> dok_threshold \<and> domains \<ge> domain_threshold then stage
      else first_rule rules avg domains)"

definition estimate_stage :: "rat \<Rightarrow> int \<Rightarrow> int" where
  "estimate_stage avg domain_count = first_rule STAGE_THRESHOLDS avg domain_count"

subsection \<open>The trend\<close>

definition calculate_trajectory :: "weekly_rollup list \<Rightarrow> string" where
  "calculate_trajectory weekly_scores =
     (if length weekly_scores < 2 then ''insufficient_data''
      else
        let mid = length weekly_scores div 2;
            first_half = map avg_dok (take mid weekly_scores);
            second_half = map avg_dok (drop mid weekly_scores);
            first_avg = (if first_half \<noteq> []
                         then sum_list first_half / of_nat (length first_half) else 0);
            second_avg = (if second_half \<noteq> []
                          then sum_list second_half / of_nat (length second_half) else 0);
            diff = second_avg - first_avg
        in if diff > 2 / 10 then ''improving''
           else if diff < - (2 / 10) then ''declining''
           else ''stable'')"

subsection \<open>The session store\<close>

text \<open>
  The store is what the database answers: whether the file exists, whether
  \<open>sqlite3.connect\<close> raises, and the rows of the three queries. Once connected, the
  queries are taken to answer: a query that raises \<open>sqlite3.Error\<close> is outside the model.
  With no session of type \<open>user\<close> the summary query answers one row with no earliest
  and no latest date and the count 0.

  A message's \<open>content_json\<close> is held decoded: \<open>None\<close> where \<open>json.loads\<close> or the
  iteration over its value raises (\<open>JSONDecodeError\<close>, \<open>TypeError\<close>: the row is skipped),
  otherwise the items of the content. \<open>TextItem t\<close> is a dictionary whose \<open>type\<close> is
  \<open>'text'\<close>, \<open>t\<close> its \<open>text\<close> entry (\<open>None\<close> where the entry is missing or null);
  \<open>OtherItem\<close> is any other item.
\<close>

datatype content_item = TextItem "string option" | OtherItem

record summary_row =
  row_earliest :: "string option"
  row_latest :: "string option"
  row_total_sessions :: int

record message_row =
  row_session_id :: string
  row_session_name :: "string option"
  row_session_date :: "string option"
  row_working_dir :: string
  row_content :: "content_item list option"
  row_created_timestamp :: int

record directory_row =
  dir_working_dir :: string
  dir_session_count :: int
  dir_total_tokens :: "int option"

record store =
  db_exists :: bool
  connect_raises :: bool
  summary_query :: summary_row
  prompts_query :: "message_row list"
  directories_query :: "directory_row list"

record summary =
  sessions :: int
  earliest :: "string option"
  latest :: "string option"
  days :: int

text \<open>
  An entry of \<open>get_sessions_by_directory\<close>: its keys \<open>count\<close> and \<open>tokens\<close>.
\<close>

record domain_info =
  info_count :: int
  info_tokens :: int

datatype py_error = ValueError | TypeError

definition connect :: "store \<Rightarrow> bool" where
  "connect st = (if \<not> db_exists st then False else if connect_raises st then False else True)"

definition get_data_summary :: "'d datetime_lib \<Rightarrow> store \<Rightarrow> py_error + summary" where
  "get_data_summary lib st =
     (let row = summary_query st
      in case row_earliest row of
           None \<Rightarrow> Inr \<lparr>sessions = 0, earliest = None, latest = None, days = 0\<rparr>
         | Some e \<Rightarrow>
             if e = [] then Inr \<lparr>sessions = 0, earliest = None, latest = None, days = 0\<rparr>
             else
               (case fromisoformat lib (replace_Z e) of
                  None \<Rightarrow> Inl ValueError
                | Some earliest_dt \<Rightarrow>
                    (case (case row_latest row of
                             None \<Rightarrow> Inr None
                           | Some l \<Rightarrow>
                               if l = [] then Inr None
                               else (case fromisoformat lib (replace_Z l) of
                                       None \<Rightarrow> Inl ValueError
                                     | Some latest_dt \<Rightarrow> Inr (Some latest_dt))) of
                       Inl err \<Rightarrow> Inl err
                     | Inr None \<Rightarrow>
                         Inr \<lparr>sessions = row_total_sessions row, earliest = row_earliest row,
                              latest = row_latest row, days = 0\<rparr>
                     | Inr (Some latest_dt) \<Rightarrow>
                         (case days_between lib latest_dt earliest_dt of
                            None \<Rightarrow> Inl TypeError
                          | Some n \<Rightarrow>
                              Inr \<lparr>sessions = row_total_sessions row,
                                   earliest = row_earliest row,
                                   latest = row_latest row, days = n\<rparr>))))"

text \<open>The inner loop of \<open>get_all_user_prompts\<close>: the text of the first text item.\<close>

fun first_text :: "content_item list \<Rightarrow> string option" where
  "first_text [] = None"
| "first_text (TextItem t # items) = Some (case t of None \<Rightarrow> [] | Some s \<Rightarrow> s)"
| "first_text (OtherItem # items) = first_text items"

definition get_all_user_prompts :: "store \<Rightarrow> prompt list" where
  "get_all_user_prompts st =
     List.map_filter
       (\<lambda>row. case row_content row of
                 None \<Rightarrow> None
               | Some content \<Rightarrow>
                   (case first_text content of
                      None \<Rightarrow> None
                    | Some t \<Rightarrow>
                        if t = [] then None
                        else Some \<lparr>session_id = row_session_id row,
                                   session_name = row_session_name row,
                                   session_date = row_session_date row,
                                   working_dir = row_working_dir row,
                                   prompt_text = t,
                                   timestamp = row_created_timestamp row\<rparr>))
       (prompts_query st)"

definition get_sessions_by_directory :: "store \<Rightarrow> (string \<times> domain_info) list" where
  "get_sessions_by_directory st =
     fold (\<lambda>row d. dict_set (dir_working_dir row)
                      \<lparr>info_count = dir_session_count row,
                       info_tokens = (case dir_total_tokens row of
                                   None \<Rightarrow> 0
                                 | Some n \<Rightarrow> if n = 0 then 0 else n)\<rparr> d)
          (directories_query st) []"

subsection \<open>The baseline snapshot\<close>

record snapshot =
  generated_at :: string
  period_start :: "string option"
  period_end :: "string option"
  period_days :: int
  sessions_analyzed :: int
  prompts_classified :: nat
  dok_distribution :: "(string \<times> rat) list"
  dok_distribution_counts :: "(string \<times> nat) list"
  average_dok_score :: rat
  estimated_stage :: int
  domain_count :: int
  domains :: "(string \<times> domain_info) list"
  trajectory :: string
  weekly_scores :: "weekly_rollup list"

text \<open>
  What \<open>generate_baseline\<close> returns besides \<open>None\<close>: the dictionary with the key
  \<open>error\<close> (its \<open>error\<close> and \<open>message\<close> entries), or a snapshot.
\<close>

datatype baseline = ErrorResult string string | Snapshot snapshot

text \<open>The classification loop of \<open>generate_baseline\<close>: \<open>dok_counts\<close> and \<open>dok_scores\<close>.\<close>

definition dok_counts_of :: "prompt list \<Rightarrow> (nat \<times> nat) list" where
  "dok_counts_of prompts =
     fold (\<lambda>p dok_counts. dict_incr (fst (classify_dok (Some (prompt_text p)))) dok_counts)
          prompts [(1, 0), (2, 0), (3, 0), (4, 0)]"

definition dok_scores_of :: "prompt list \<Rightarrow> nat list" where
  "dok_scores_of prompts = map (\<lambda>p. fst (classify_dok (Some (prompt_text p)))) prompts"

definition dok_distribution_of :: "(nat \<times> nat) list \<Rightarrow> (string \<times> rat) list" where
  "dok_distribution_of dok_counts =
     (let total_prompts = sum_list (map snd dok_counts)
      in map (\<lambda>(k, v). (''dok'' @ str_nat k,
                         if total_prompts > 0
                         then py_round (of_nat v / of_nat total_prompts * 100) 1 else 0))
             dok_counts)"

definition average_dok :: "nat list \<Rightarrow> rat" where
  "average_dok dok_scores =
     (if dok_scores \<noteq> [] then of_nat (sum_list dok_scores) / of_nat (length dok_scores)
      else 2)"

definition generate_baseline ::
  "'d datetime_lib \<Rightarrow> string \<Rightarrow> store \<Rightarrow> py_error + baseline option" where
  "generate_baseline lib now st =
     (if \<not> connect st then Inr None
      else
        case get_data_summary lib st of
          Inl err \<Rightarrow> Inl err
        | Inr summ \<Rightarrow>
            if sessions summ = 0
            then Inr (Some (ErrorResult ''no_data'' ''No sessions found in database''))
            else
              let prompts = get_all_user_prompts st;
                  dok_counts = dok_counts_of prompts;
                  dok_scores = dok_scores_of prompts;
                  total_prompts = sum_list (map snd dok_counts);
                  avg = average_dok dok_scores;
                  directories = get_sessions_by_directory st;
                  n_domains = int (length directories);
                  weekly = get_weekly_breakdown lib prompts
              in Inr (Some (Snapshot
                   \<lparr>generated_at = now,
                    period_start = earliest summ,
                    period_end = latest summ,
                    period_days = days summ,
                    sessions_analyzed = sessions summ,
                    prompts_classified = total_prompts,
                    dok_distribution = dok_distribution_of dok_counts,
                    dok_distribution_counts =
                      map (\<lambda>(k, v). (''dok'' @ str_nat k @ ''_count'', v)) dok_counts,
                    average_dok_score = py_round avg 2,
                    estimated_stage = estimate_stage avg n_domains,
                    domain_count = n_domains,
                    domains = take 10 directories,
                    trajectory = calculate_trajectory weekly,
                    weekly_scores = drop (length weekly - 12) weekly\<rparr>)))"

subsection \<open>The baseline store\<close>

text \<open>
  The file system: the content of each file that exists, and whether writing and reading
  succeed (where they do not, \<open>mkdir\<close> or \<open>open\<close> raises \<open>IOError\<close>, which both functions
  catch). \<open>dumps\<close> is \<open>json.dump\<close> with \<open>indent=2\<close>; \<open>loads\<close> is \<open>json.load\<close>, \<open>None\<close>
  where it raises \<open>JSONDecodeError\<close>.
\<close>

record filesystem =
  files :: "string \<Rightarrow> string option"
  writable :: bool
  readable :: bool

definition BASELINE_FILE :: string where
  "BASELINE_FILE = ''~/.config/goose/rp-why-baseline.json''"

definition save_baseline :: "('doc \<Rightarrow> string) \<Rightarrow> filesystem \<Rightarrow> 'doc \<Rightarrow> bool \<times> filesystem" where
  "save_baseline dumps fs baseline =
     (if writable fs
      then (True, fs\<lparr>files := (files fs)(BASELINE_FILE \<mapsto> dumps baseline)\<rparr>)
      else (False, fs))"


subsection \<open>The \<open>init\<close> command\<close>

text \<open>
  What \<open>main\<close> does for \<open>init\<close> after \<open>generate_baseline\<close> returns, by branch: it saves
  the baseline (\<open>Saved ok\<close>, \<open>ok\<close> the result of \<open>save_baseline\<close>) and prints the report;
  or it prints the message of the error result; or it prints that the generation failed.
  The printed text itself is not modelled. An exception of \<open>generate_baseline\<close> is not
  caught.
\<close>

datatype init_outcome = Saved bool | PrintedMessage string | PrintedFailed

definition main_init ::
  "'d datetime_lib \<Rightarrow> string \<Rightarrow> (snapshot \<Rightarrow> string) \<Rightarrow> store \<Rightarrow> filesystem
     \<Rightarrow> py_error + (init_outcome \<times> filesystem)" where
  "main_init lib now dumps st fs =
     (case generate_baseline lib now st of
        Inl err \<Rightarrow> Inl err
      | Inr None \<Rightarrow> Inr (PrintedFailed, fs)
      | Inr (Some (ErrorResult e message)) \<Rightarrow> Inr (PrintedMessage message, fs)
      | Inr (Some (Snapshot b)) \<Rightarrow>
          (let (ok, fs') = save_baseline dumps fs b in Inr (Saved ok, fs')))"

section \<open>The specification's wording, and example inputs\<close>

text \<open>
  The stage rules as the specification lists them: the fifth rule asks for a domain
  count of at least 0 (the table \<open>STAGE_THRESHOLDS\<close> has 1 there).
\<close>

definition stage_by_spec :: "rat \<Rightarrow> int \<Rightarrow> int" where
  "stage_by_spec tier n_domains =
     (if tier \<ge> 35 / 10 \<and> n_domains \<ge> 5 then 7
      else if tier \<ge> 32 / 10 \<and> n_domains \<ge> 4 then 6
      else if tier \<ge> 28 / 10 \<and> n_domains \<ge> 3 then 6
      else if tier \<ge> 25 / 10 \<and> n_domains \<ge> 2 then 5
      else if tier \<ge> 20 / 10 \<and> n_domains \<ge> 0 then 5
      else 5)"




text \<open>
  The classifier's counts, as the specification words them: \<open>match_count k t\<close> is the
  number of trigger patterns of tier \<open>k\<close> that match the lower-cased text \<open>t\<close> (a
  pattern counts once, however often it occurs), and \<open>any_match t\<close> says that some
  pattern of some tier matches.
\<close>

definition patterns_of :: "nat \<Rightarrow> pattern list" where
  "patterns_of k = (case map_of DOK_PATTERNS k of None \<Rightarrow> [] | Some ps \<Rightarrow> ps)"

definition match_count :: "nat \<Rightarrow> string \<Rightarrow> nat" where
  "match_count k t = card {p \<in> set (patterns_of k). re_search p (lower t) \<noteq> None}"

definition any_match :: "string \<Rightarrow> bool" where
  "any_match t \<longleftrightarrow> (\<exists>k \<in> {1, 2, 3, 4}. \<exists>p \<in> set (patterns_of k). re_search p (lower t) \<noteq> None)"



text \<open>
  A prompt is dated when its session date is present (neither \<open>None\<close> nor empty) and
  \<open>fromisoformat\<close> parses it.
\<close>

definition dated :: "'d datetime_lib \<Rightarrow> prompt \<Rightarrow> bool" where
  "dated lib p \<longleftrightarrow>
     (case session_date p of
        None \<Rightarrow> False
      | Some sd \<Rightarrow> sd \<noteq> [] \<and> fromisoformat lib (replace_Z sd) \<noteq> None)"

text \<open>
  A small stand-in for the \<open>datetime\<close> library, to run the model on concrete inputs: it
  parses every string of at least ten characters, keeps the string as the date, and
  forms the week key from the year and the two characters after it.
\<close>

definition example_lib :: "string datetime_lib" where
  "example_lib =
     \<lparr>fromisoformat = (\<lambda>s. if length s < 10 then None else Some s),
      strftime_week = (\<lambda>d. take 4 d @ ''-W'' @ take 2 (drop 5 d)),
      days_between = (\<lambda>a b. Some 36)\<rparr>"

text \<open>
  A store with three sessions in two directories and four messages: two dated prompts,
  one prompt without a session date, and one message whose content does not decode.
\<close>

definition example_store :: store where
  "example_store =
     \<lparr>db_exists = True,
      connect_raises = False,
      summary_query = \<lparr>row_earliest = Some ''2024-01-15T10:00:00Z'',
                        row_latest = Some ''2024-02-20T09:00:00Z'',
                        row_total_sessions = 3\<rparr>,
      prompts_query =
        [\<lparr>row_session_id = ''s1'', row_session_name = Some ''one'',
          row_session_date = Some ''2024-01-15T10:00:00Z'', row_working_dir = ''/repo/a'',
          row_content = Some [TextItem (Some ''fix'')], row_created_timestamp = 1\<rparr>,
         \<lparr>row_session_id = ''s2'', row_session_name = None,
          row_session_date = Some ''2024-02-20T09:00:00Z'', row_working_dir = ''/repo/b'',
          row_content = Some [OtherItem, TextItem (Some ''why'')], row_created_timestamp = 2\<rparr>,
         \<lparr>row_session_id = ''s3'', row_session_name = None,
          row_session_date = None, row_working_dir = ''/repo/b'',
          row_content = Some [TextItem (Some ''novel'')], row_created_timestamp = 3\<rparr>,
         \<lparr>row_session_id = ''s3'', row_session_name = None,
          row_session_date = None, row_working_dir = ''/repo/b'',
          row_content = None, row_created_timestamp = 4\<rparr>],
      directories_query =
        [\<lparr>dir_working_dir = ''/repo/b'', dir_session_count = 2, dir_total_tokens = Some 1200\<rparr>,
         \<lparr>dir_working_dir = ''/repo/a'', dir_session_count = 1, dir_total_tokens = None\<rparr>]\<rparr>"

text \<open>The prompts of that store, and the snapshot generated from it.\<close>

definition example_prompts :: "prompt list" where
  "example_prompts =
     [\<lparr>session_id = ''s1'', session_name = Some ''one'',
       session_date = Some ''2024-01-15T10:00:00Z'',
       working_dir = ''/repo/a'', prompt_text = ''fix'', timestamp = 1\<rparr>,
      \<lparr>session_id = ''s2'', session_name = None,
       session_date = Some ''2024-02-20T09:00:00Z'',
       working_dir = ''/repo/b'', prompt_text = ''why'', timestamp = 2\<rparr>,
      \<lparr>session_id = ''s3'', session_name = None, session_date = None,
       working_dir = ''/repo/b'', prompt_text = ''novel'', timestamp = 3\<rparr>]"


text \<open>
  A stand-in for the JSON encoder and decoder on documents that are strings (the
  document between double quotes), a file system that holds an earlier document, and a
  store without sessions (the summary query of an empty table: no earliest date, count 0).
\<close>

definition example_dumps :: "string \<Rightarrow> string" where
  "example_dumps d = CHR 0x22 # d @ [CHR 0x22]"


definition example_fs :: filesystem where
  "example_fs =
     \<lparr>files = Map.empty(BASELINE_FILE \<mapsto> example_dumps ''old''),
      writable = True, readable = True\<rparr>"

definition empty_store :: store where
  "empty_store =
     \<lparr>db_exists = True, connect_raises = False,
      summary_query = \<lparr>row_earliest = None, row_latest = None, row_total_sessions = 0\<rparr>,
      prompts_query = [], directories_query = []\<rparr>"

section \<open>Properties\<close>

subsection \<open>The stage estimator\<close>

text \<open>
  Claim C4. For every average tier score and every domain count (in particular every
  non-negative one), \<open>estimate_stage\<close> returns the stage of the first rule, in the order
  of the specification, whose two thresholds are both met, and the default 5 when none
  is; its result is 5, 6 or 7.
\<close>

theorem estimate_stage_first_rule:
  "estimate_stage avg d = stage_by_spec avg d \<and> estimate_stage avg d \<in> {5, 6, 7}"
  by (simp add: estimate_stage_def STAGE_THRESHOLDS_def stage_by_spec_def)

text \<open>
  Claim C5. With the domain count fixed, a larger average tier never gives a smaller
  stage.
\<close>

theorem estimate_stage_mono:
  assumes "a \<le> b"
  shows "estimate_stage a d \<le> estimate_stage b d"
  using assms by (simp add: estimate_stage_def STAGE_THRESHOLDS_def)

theorem estimate_stage_mono_witness:
  "(29 / 10 :: rat) \<le> 36 / 10 \<and> estimate_stage (29 / 10) 5 = 6
     \<and> estimate_stage (36 / 10) 5 = 7
     \<and> estimate_stage (29 / 10) 5 \<le> estimate_stage (36 / 10) 5"
  using estimate_stage_mono [of "29 / 10" "36 / 10" 5]
  by (simp add: estimate_stage_def STAGE_THRESHOLDS_def)

subsection \<open>The trend\<close>






subsection \<open>The tier classifier\<close>

lemma distinct_patterns: "distinct (patterns_of k)"
  by (simp add: patterns_of_def DOK_PATTERNS_def word_def)

lemma level_scores_match_count:
  "level_scores (lower t) = map (\<lambda>k. (k, match_count k t)) [1, 2, 3, 4]"
proof -
  have len: "length (filter P (patterns_of k)) = card {p \<in> set (patterns_of k). P p}" for P k
    using distinct_patterns [of k] by (simp add: distinct_length_filter Int_def conj_commute)
  have "level_scores (lower t) =
      map (\<lambda>k. (k, length (filter (\<lambda>p. re_search p (lower t) \<noteq> None) (patterns_of k)))) [1, 2, 3, 4]"
    by (simp add: level_scores_def patterns_of_def DOK_PATTERNS_def)
  then show ?thesis by (simp add: len match_count_def)
qed

lemma no_match_empty:
  assumes "p \<in> set (patterns_of k)"
  shows "re_search p [] = None"
proof -
  have w: "re_search (WB # q) [] = None" for q
    by (simp add: re_search_def is_boundary_def)
  have "\<exists>q. p = WB # q"
    using assms
    by (auto simp: patterns_of_def DOK_PATTERNS_def word_def split: if_splits)
  then show ?thesis using w by auto
qed


lemma winner_props:
  fixes sc :: "(nat \<times> nat) list"
  assumes "sc \<noteq> []"
  defines "m \<equiv> Max (set (map snd sc))"
  defines "w \<equiv> Max (set (map fst (filter (\<lambda>(k, v). v = m) sc)))"
  shows "(w, m) \<in> set sc"
    and "(k, v) \<in> set sc \<Longrightarrow> v \<le> m"
    and "(k, m) \<in> set sc \<Longrightarrow> k \<le> w"
proof -
  define tied where "tied = map fst (filter (\<lambda>(k, v). v = m) sc)"
  have tied_iff: "k \<in> set tied \<longleftrightarrow> (k, m) \<in> set sc" for k
    by (force simp: tied_def)
  have w: "w = Max (set tied)" by (simp add: w_def tied_def)
  have "m \<in> set (map snd sc)"
    unfolding m_def using assms(1) by (intro Max_in) auto
  then obtain k0 where "(k0, m) \<in> set sc" by auto
  then have "k0 \<in> set tied" by (simp add: tied_iff)
  then have "set tied \<noteq> {}" by auto
  then have "w \<in> set tied" unfolding w by (intro Max_in) auto
  then show "(w, m) \<in> set sc" by (simp add: tied_iff)
  show "v \<le> m" if "(k, v) \<in> set sc"
    unfolding m_def using that by (intro Max_ge) force+
  show "k \<le> w" if "(k, m) \<in> set sc"
    unfolding w using that by (intro Max_ge) (simp_all add: tied_iff)
qed

lemma classify_dok_matching:
  assumes "any_match t"
  defines "n_total \<equiv> match_count 1 t + match_count 2 t + match_count 3 t + match_count 4 t"
  shows "fst (classify_dok (Some t)) \<in> {1, 2, 3, 4}"
    and "k \<in> {1, 2, 3, 4} \<Longrightarrow> match_count k t \<le> match_count (fst (classify_dok (Some t))) t"
    and "k \<in> {1, 2, 3, 4} \<Longrightarrow> match_count k t = match_count (fst (classify_dok (Some t))) t
           \<Longrightarrow> k \<le> fst (classify_dok (Some t))"
    and "fst (snd (classify_dok (Some t))) =
           min (of_nat (match_count (fst (classify_dok (Some t))) t) / of_nat n_total) 1"
    and "0 < n_total"
proof -
  define sc where "sc = map (\<lambda>k. (k, match_count k t)) [1, 2, 3, 4]"
  define m where "m = Max (set (map snd sc))"
  define w where "w = Max (set (map fst (filter (\<lambda>(k, v). v = m) sc)))"
  from assms(1) obtain k0 p where k0: "k0 \<in> {1, 2, 3, 4}"
    and p: "p \<in> set (patterns_of k0)" "re_search p (lower t) \<noteq> None"
    by (auto simp: any_match_def)
  have t: "t \<noteq> []"
    using p no_match_empty [OF p(1)] by (auto simp: lower_def)
  define S where "S = {p \<in> set (patterns_of k0). re_search p (lower t) \<noteq> None}"
  have "finite S" "p \<in> S" using p by (simp_all add: S_def)
  then have "0 < card S" by (auto simp: card_gt_0_iff)
  then have pos: "0 < match_count k0 t" by (simp add: match_count_def S_def)
  have tot_eq: "sum_list (map snd sc) = n_total" by (simp add: sc_def n_total_def)
  show total_pos: "0 < n_total" using pos k0 by (auto simp: n_total_def)
  have ls: "level_scores (lower t) = sc"
    by (simp only: level_scores_match_count sc_def)
  have cl: "classify_dok (Some t) = (w, min (of_nat m / of_nat n_total) 1, take 5 (level_matched (lower t)))"
    unfolding classify_dok_def Let_def option.case ls tot_eq m_def [symmetric] w_def [symmetric]
    using t total_pos by simp
  have ne: "sc \<noteq> []" by (simp add: sc_def)
  note wp = winner_props [OF ne, folded m_def, folded w_def]
  have in_sc: "(k, match_count k t) \<in> set sc" if "k \<in> {1, 2, 3, 4}" for k
    using that by (auto simp: sc_def)
  have sc_D: "v = match_count k t \<and> k \<in> {1, 2, 3, 4}" if "(k, v) \<in> set sc" for k v
    using that by (auto simp: sc_def)
  have wm: "m = match_count w t" "w \<in> {1, 2, 3, 4}" using sc_D [OF wp(1)] by auto
  show "fst (classify_dok (Some t)) \<in> {1, 2, 3, 4}" using wm by (simp add: cl)
  show "match_count k t \<le> match_count (fst (classify_dok (Some t))) t" if "k \<in> {1, 2, 3, 4}"
    using wp(2) [OF in_sc [OF that]] wm by (simp add: cl)
  show "k \<le> fst (classify_dok (Some t))"
    if "k \<in> {1, 2, 3, 4}" "match_count k t = match_count (fst (classify_dok (Some t))) t"
  proof -
    have "(k, m) \<in> set sc" using in_sc [OF that(1)] that(2) wm by (simp add: cl)
    from wp(3) [OF this] show ?thesis by (simp add: cl)
  qed
  show "fst (snd (classify_dok (Some t))) =
           min (of_nat (match_count (fst (classify_dok (Some t))) t) / of_nat n_total) 1"
    using wm by (simp add: cl)
qed


lemma classify_dok_no_match:
  assumes "\<not> any_match t"
  shows "classify_dok (Some t) = (2, 3 / 10, [])"
proof -
  have "{p \<in> set (patterns_of k). re_search p (lower t) \<noteq> None} = {}" if "k \<in> {1, 2, 3, 4}" for k
    using assms that unfolding any_match_def by blast
  then have "match_count k t = 0" if "k \<in> {1, 2, 3, 4}" for k
    using that by (simp add: match_count_def)
  then have "match_count 1 t = 0" "match_count 2 t = 0" "match_count 3 t = 0" "match_count 4 t = 0"
    by simp_all
  then show ?thesis
    by (simp add: classify_dok_def Let_def level_scores_match_count)
qed

lemma classify_dok_level: "fst (classify_dok inp) \<in> {1, 2, 3, 4}"
proof (cases inp)
  case None
  then show ?thesis by (simp add: classify_dok_def)
next
  case (Some t)
  show ?thesis
  proof (cases "any_match t")
    case True
    then show ?thesis using classify_dok_matching(1) Some by simp
  next
    case False
    then show ?thesis using classify_dok_no_match Some by simp
  qed
qed







subsection \<open>The tier distribution\<close>



lemma dict_incr_shape:
  assumes "k \<in> {1, 2, 3, 4}"
  shows "\<exists>a' b' c' d'. dict_incr k [(1, a), (2, b), (3, c), (4 :: nat, d)]
            = [(1, a'), (2, b'), (3, c'), (4, d')] \<and> a' + b' + c' + d' = Suc (a + b + c + d)"
  using assms by auto

lemma dok_counts_fold_shape:
  "\<exists>a' b' c' d'.
      fold (\<lambda>p dok_counts. dict_incr (fst (classify_dok (Some (prompt_text p)))) dok_counts)
           prompts [(1, a), (2, b), (3, c), (4, d)]
        = [(1, a'), (2, b'), (3, c'), (4, d')]
      \<and> a' + b' + c' + d' = a + b + c + d + length prompts"
proof (induction prompts arbitrary: a b c d)
  case Nil
  then show ?case by simp
next
  case (Cons p ps)
  obtain a1 b1 c1 d1 where s:
    "dict_incr (fst (classify_dok (Some (prompt_text p)))) [(1, a), (2, b), (3, c), (4, d)]
       = [(1, a1), (2, b1), (3, c1), (4, d1)]" "a1 + b1 + c1 + d1 = Suc (a + b + c + d)"
    using dict_incr_shape [OF classify_dok_level] by blast
  from Cons.IH [of a1 b1 c1 d1] s show ?case by auto
qed

lemma dok_counts_shape:
  "\<exists>a b c d. dok_counts_of prompts = [(1, a), (2, b), (3, c), (4, d)]
      \<and> a + b + c + d = length prompts"
  using dok_counts_fold_shape [of prompts 0 0 0 0] by (simp add: dok_counts_of_def)

lemma dok_counts_total: "sum_list (map snd (dok_counts_of prompts)) = length prompts"
  using dok_counts_shape [of prompts] by auto








subsection \<open>The weekly rollup\<close>

lemma keys_dict_append:
  "map fst (dict_append k x d) = (if k \<in> fst ` set d then map fst d else map fst d @ [k])"
  by (induction d) force+

lemma distinct_dict_append: "distinct (map fst d) \<Longrightarrow> distinct (map fst (dict_append k x d))"
  by (simp add: keys_dict_append)

lemma sizes_dict_append:
  "sum_list (map (\<lambda>e. length (snd e)) (dict_append k x d)) = Suc (sum_list (map (\<lambda>e. length (snd e)) d))"
  by (induction d) auto

lemma weekly_step_cases:
  "weekly_step lib p weekly =
     (if dated lib p
      then dict_append (strftime_week lib (the (fromisoformat lib (replace_Z (the (session_date p))))))
             (fst (classify_dok (Some (prompt_text p)))) weekly
      else weekly)"
  by (auto simp: weekly_step_def dated_def split: option.splits)

lemma distinct_weekly_fold:
  "distinct (map fst acc) \<Longrightarrow> distinct (map fst (fold (weekly_step lib) prompts acc))"
  by (induction prompts arbitrary: acc) (auto simp: weekly_step_cases distinct_dict_append)

lemma sizes_weekly_fold:
  "sum_list (map (\<lambda>e. length (snd e)) (fold (weekly_step lib) prompts acc))
     = sum_list (map (\<lambda>e. length (snd e)) acc) + length (filter (dated lib) prompts)"
  by (induction prompts arbitrary: acc) (auto simp: weekly_step_cases sizes_dict_append)

lemma distinct_weekly_groups: "distinct (map fst (weekly_groups lib prompts))"
  by (simp add: weekly_groups_def distinct_weekly_fold)

lemma sizes_weekly_groups:
  "sum_list (map (\<lambda>e. length (snd e)) (weekly_groups lib prompts)) = length (filter (dated lib) prompts)"
  by (simp add: weekly_groups_def sizes_weekly_fold)



lemma sum_list_sort:
  fixes f :: "'a :: linorder \<Rightarrow> nat"
  shows "sum_list (map f (sort xs)) = sum_list (map f xs)"
proof -
  have "sum_list (map f (sort xs)) = sum_mset (image_mset f (mset (sort xs)))"
    by (metis mset_map sum_mset_sum_list)
  also have "\<dots> = sum_mset (image_mset f (mset xs))" by simp
  also have "\<dots> = sum_list (map f xs)"
    by (metis mset_map sum_mset_sum_list)
  finally show ?thesis .
qed

lemma dict_get_list_own:
  assumes "distinct (map fst d)" "e \<in> set d"
  shows "dict_get_list d (fst e) = snd e"
proof -
  have "map_of d (fst e) = Some (snd e)"
    using assms by (intro map_of_is_SomeI) auto
  then show ?thesis by (simp add: dict_get_list_def)
qed

lemma prompt_count_total:
  "sum_list (map prompt_count (get_weekly_breakdown lib prompts)) = length (filter (dated lib) prompts)"
proof -
  define weekly where "weekly = weekly_groups lib prompts"
  have d: "distinct (map fst weekly)" by (simp add: weekly_def distinct_weekly_groups)
  have "sum_list (map prompt_count (get_weekly_breakdown lib prompts))
      = sum_list (map (\<lambda>w. length (dict_get_list weekly w)) (sort (map fst weekly)))"
    by (simp add: get_weekly_breakdown_def Let_def comp_def weekly_def)
  also have "\<dots> = sum_list (map (\<lambda>w. length (dict_get_list weekly w)) (map fst weekly))"
    by (rule sum_list_sort)
  also have "\<dots> = sum_list (map (\<lambda>e. length (snd e)) weekly)"
    using dict_get_list_own [OF d] by (simp add: comp_def cong: map_cong)
  also have "\<dots> = length (filter (dated lib) prompts)"
    by (simp add: weekly_def sizes_weekly_groups)
  finally show ?thesis .
qed

text \<open>
  Claim C10. For every prompt list, the prompt counts of the weekly rollups of
  \<open>get_weekly_breakdown\<close> sum to the number of dated prompts, which is at most the number
  of prompts classified into the distribution (the sum of \<open>dok_counts\<close>, the length of
  the prompt list, also the number of scores that enter the average); the two are equal
  exactly when every prompt is dated. A prompt whose session date is absent or does not
  parse is counted in the distribution and the average and left out of the rollups.
\<close>

theorem weekly_counts_le_total:
  "sum_list (map prompt_count (get_weekly_breakdown lib prompts))
       \<le> sum_list (map snd (dok_counts_of prompts))
   \<and> sum_list (map snd (dok_counts_of prompts)) = length prompts
   \<and> length (dok_scores_of prompts) = length prompts
   \<and> sum_list (map prompt_count (get_weekly_breakdown lib prompts))
       = length (filter (dated lib) prompts)
   \<and> (sum_list (map prompt_count (get_weekly_breakdown lib prompts))
         = sum_list (map snd (dok_counts_of prompts))
       \<longleftrightarrow> (\<forall>p \<in> set prompts. dated lib p))"
proof -
  have "length (filter (dated lib) prompts) = length prompts \<longleftrightarrow> (\<forall>p \<in> set prompts. dated lib p)"
    by (metis filter_id_conv length_filter_less less_irrefl_nat filter_True)
  then show ?thesis
    by (simp add: prompt_count_total dok_counts_total dok_scores_of_def)
qed

theorem weekly_counts_le_total_witness:
  "sum_list (map prompt_count (get_weekly_breakdown example_lib example_prompts)) = 2
   \<and> sum_list (map snd (dok_counts_of example_prompts)) = 3
   \<and> \<not> dated example_lib (example_prompts ! 2)"
proof -
  note th = weekly_counts_le_total [of example_lib example_prompts]
  have d: "filter (dated example_lib) example_prompts = take 2 example_prompts"
    by (simp add: example_prompts_def dated_def example_lib_def replace_Z_def)
  have n: "\<not> dated example_lib (example_prompts ! 2)"
    by (simp add: example_prompts_def dated_def)
  from th have "sum_list (map prompt_count (get_weekly_breakdown example_lib example_prompts))
       = length (filter (dated example_lib) example_prompts)" by (elim conjE)
  moreover have "length (filter (dated example_lib) example_prompts) = 2"
    unfolding d by (simp add: example_prompts_def)
  ultimately have a: "sum_list (map prompt_count (get_weekly_breakdown example_lib example_prompts)) = 2"
    by (rule trans)
  from th have "sum_list (map snd (dok_counts_of example_prompts)) = length example_prompts"
    by (elim conjE)
  moreover have "length example_prompts = 3" by (simp add: example_prompts_def)
  ultimately have b: "sum_list (map snd (dok_counts_of example_prompts)) = 3"
    by (rule trans)
  from a b n show ?thesis by (intro conjI)
qed

subsection \<open>The baseline snapshot\<close>









lemma example_prompts_eq: "get_all_user_prompts example_store = example_prompts"
  by (simp add: get_all_user_prompts_def example_store_def example_prompts_def List.map_filter_def)



subsection \<open>The baseline store and the \<open>init\<close> command\<close>



text \<open>
  Claim C9. When the store cannot be reached (\<open>connect\<close> fails), \<open>generate_baseline\<close>
  returns \<open>None\<close>; when the store has no session (the summary query has no earliest
  date), and whenever the summary reports zero sessions, it returns the \<open>no_data\<close> error
  result. In these cases \<open>init\<close> takes a branch that does not call \<open>save_baseline\<close> and
  leaves the file system, hence the persisted snapshot, as it was.
\<close>

theorem init_without_snapshot:
  "(\<not> connect st \<longrightarrow>
      generate_baseline lib now st = Inr None
      \<and> main_init lib now dumps st fs = Inr (PrintedFailed, fs))
   \<and> (connect st \<and> row_earliest (summary_query st) = None \<longrightarrow>
      generate_baseline lib now st
        = Inr (Some (ErrorResult ''no_data'' ''No sessions found in database''))
      \<and> main_init lib now dumps st fs
        = Inr (PrintedMessage ''No sessions found in database'', fs))
   \<and> (connect st \<and> get_data_summary lib st = Inr summ \<and> sessions summ = 0 \<longrightarrow>
      generate_baseline lib now st
        = Inr (Some (ErrorResult ''no_data'' ''No sessions found in database''))
      \<and> main_init lib now dumps st fs
        = Inr (PrintedMessage ''No sessions found in database'', fs))"
  by (simp add: generate_baseline_def main_init_def get_data_summary_def)

theorem init_without_snapshot_witness:
  "\<not> connect (empty_store\<lparr>db_exists := False\<rparr>)
   \<and> generate_baseline example_lib ''2024-03-01T12:00:00'' (empty_store\<lparr>db_exists := False\<rparr>)
        = Inr None
   \<and> main_init example_lib ''2024-03-01T12:00:00'' generated_at
        (empty_store\<lparr>db_exists := False\<rparr>) example_fs = Inr (PrintedFailed, example_fs)
   \<and> connect empty_store
   \<and> get_data_summary example_lib empty_store
        = Inr \<lparr>sessions = 0, earliest = None, latest = None, days = 0\<rparr>
   \<and> main_init example_lib ''2024-03-01T12:00:00'' generated_at empty_store example_fs
        = Inr (PrintedMessage ''No sessions found in database'', example_fs)"
proof -
  have c1: "\<not> connect (empty_store\<lparr>db_exists := False\<rparr>)"
    by (simp add: connect_def)
  have c2: "connect empty_store"
    by (simp add: connect_def empty_store_def)
  have s: "get_data_summary example_lib empty_store
        = Inr \<lparr>sessions = 0, earliest = None, latest = None, days = 0\<rparr>"
    by (simp add: get_data_summary_def empty_store_def)
  note a = init_without_snapshot
    [where st = "empty_store\<lparr>db_exists := False\<rparr>" and lib = example_lib
       and now = "''2024-03-01T12:00:00''" and dumps = generated_at and fs = example_fs]
  note b = init_without_snapshot
    [where st = empty_store and lib = example_lib and now = "''2024-03-01T12:00:00''"
       and dumps = generated_at and fs = example_fs
       and summ = "\<lparr>sessions = 0, earliest = None, latest = None, days = 0\<rparr>"]
  have a': "generate_baseline example_lib ''2024-03-01T12:00:00''
        (empty_store\<lparr>db_exists := False\<rparr>) = Inr None
      \<and> main_init example_lib ''2024-03-01T12:00:00'' generated_at
        (empty_store\<lparr>db_exists := False\<rparr>) example_fs = Inr (PrintedFailed, example_fs)"
    by (rule a [THEN conjunct1, THEN mp, OF c1])
  have "generate_baseline example_lib ''2024-03-01T12:00:00'' empty_store
        = Inr (Some (ErrorResult ''no_data'' ''No sessions found in database''))
      \<and> main_init example_lib ''2024-03-01T12:00:00'' generated_at empty_store
        example_fs = Inr (PrintedMessage ''No sessions found in database'', example_fs)"
    by (rule b [THEN conjunct2, THEN conjunct2, THEN mp]) (simp add: c2 s)
  then have b': "main_init example_lib ''2024-03-01T12:00:00'' generated_at empty_store
        example_fs = Inr (PrintedMessage ''No sessions found in database'', example_fs)"
    by (rule conjunct2)
  from c1 a' c2 s b' show ?thesis by (intro conjI) (elim conjE, assumption)+
qed

end
